theory Spec2Isabelle
  imports Complex_Main "HOL-Library.Char_ord" "HOL-Library.List_Lexorder" "HOL-Library.Multiset"
begin

section \<open>Python values, errors and location items\<close>

text \<open>
  The exceptions that the modelled code can raise. Every \<^verbatim>\<open>raise\<close>, failed
  subscript and failed conversion of the source is a branch that returns one of them.
\<close>

datatype error = IndexError | KeyError | ValueError | TypeError

text \<open>
  The values a JSON location item stores under \<^verbatim>\<open>timestampMs\<close>: an integer,
  a string, or null (Python's \<^verbatim>\<open>None\<close>, which is also what
  \<^verbatim>\<open>item.get("timestampMs")\<close> returns when the key is absent).
\<close>

datatype pyval = PInt int | PStr string | PNone

text \<open>
  A location item is a dictionary; the code reads three of its keys. Each key may be
  absent (\<open>None\<close>). \<^verbatim>\<open>latitudeE7\<close> and \<^verbatim>\<open>longitudeE7\<close> are integers
  (degrees times ten million).
\<close>

record item =
  latitudeE7 :: "int option"
  longitudeE7 :: "int option"
  timestampMs :: "pyval option"

subsection \<open>The builtin \<^verbatim>\<open>int\<close> on timestamps\<close>

text \<open>
  \<^verbatim>\<open>int(s)\<close> on a string strips surrounding white space, reads an optional sign and
  then decimal digits, in which single underscores may separate digits; anything else
  raises \<^verbatim>\<open>ValueError\<close>. Strings are byte strings here, so only ASCII digits and
  ASCII white space are covered: tab, line feed, vertical tab, form feed, carriage return
  and space. The separator characters 28 to 31 are not white space for \<^verbatim>\<open>int\<close>.
\<close>

definition digit_val :: "char \<Rightarrow> nat option" where
  "digit_val c = map_of (zip ''0123456789'' [0, 1, 2, 3, 4, 5, 6, 7, 8, 9]) c"

definition is_space :: "char \<Rightarrow> bool" where
  "is_space c = ((of_char c :: nat) \<in> {9, 10, 11, 12, 13, 32})"

fun parse_digits :: "nat \<Rightarrow> string \<Rightarrow> nat option" where
  "parse_digits acc [] = Some acc"
| "parse_digits acc (c # cs) =
     (case digit_val c of
        Some d \<Rightarrow> parse_digits (10 * acc + d) cs
      | None \<Rightarrow>
          (if c = CHR ''_'' then
             (case cs of
                [] \<Rightarrow> None
              | c' # _ \<Rightarrow> (if digit_val c' = None then None else parse_digits acc cs))
           else None))"

definition parse_nat :: "string \<Rightarrow> nat option" where
  "parse_nat s =
     (case s of
        [] \<Rightarrow> None
      | c # _ \<Rightarrow> (if digit_val c = None then None else parse_digits 0 s))"

definition strip :: "string \<Rightarrow> string" where
  "strip s = rev (dropWhile is_space (rev (dropWhile is_space s)))"

definition int_of_string :: "string \<Rightarrow> int option" where
  "int_of_string s =
     (case strip s of
        [] \<Rightarrow> None
      | c # cs \<Rightarrow>
          (if c = CHR ''-'' then map_option (\<lambda>n. - int n) (parse_nat cs)
           else if c = CHR ''+'' then map_option int (parse_nat cs)
           else map_option int (parse_nat (c # cs))))"

text \<open>\<^verbatim>\<open>int(v)\<close> for a value read from an item.\<close>

fun py_int :: "pyval \<Rightarrow> error + int" where
  "py_int (PInt i) = Inr i"
| "py_int (PStr s) = (case int_of_string s of None \<Rightarrow> Inl ValueError | Some i \<Rightarrow> Inr i)"
| "py_int PNone = Inl TypeError"

text \<open>\<^verbatim>\<open>int(item["timestampMs"])\<close>: the subscript raises \<^verbatim>\<open>KeyError\<close> on a missing key.\<close>

definition int_timestamp :: "item \<Rightarrow> error + int" where
  "int_timestamp it = (case timestampMs it of None \<Rightarrow> Inl KeyError | Some v \<Rightarrow> py_int v)"

section \<open>The chronological filter\<close>

text \<open>
  \<^verbatim>\<open>_default_filter_func\<close>: \<^verbatim>\<open>item.get("timestampMs", 0) != 0\<close>. A string never
  equals the integer 0 in Python, and neither does \<^verbatim>\<open>None\<close>.
\<close>

definition default_filter_func :: "item \<Rightarrow> bool" where
  "default_filter_func it =
     ((case timestampMs it of None \<Rightarrow> PInt 0 | Some v \<Rightarrow> v) \<noteq> PInt 0)"

text \<open>\<^verbatim>\<open>_default_key_func\<close>: \<^verbatim>\<open>item.get("timestampMs")\<close>.\<close>

definition default_key_func :: "item \<Rightarrow> pyval" where
  "default_key_func it = (case timestampMs it of None \<Rightarrow> PNone | Some v \<Rightarrow> v)"

text \<open>
  \<^verbatim>\<open>sorted(xs, key=k)\<close> is a stable sort that compares keys with \<^verbatim>\<open><\<close>. Integers
  compare by value and strings lexicographically by character; an integer against a
  string, and \<^verbatim>\<open>None\<close> against anything, raises \<^verbatim>\<open>TypeError\<close>. A list of at most
  one element is returned without any comparison.
\<close>

fun is_PInt :: "pyval \<Rightarrow> bool" where
  "is_PInt (PInt _) = True"
| "is_PInt _ = False"

fun is_PStr :: "pyval \<Rightarrow> bool" where
  "is_PStr (PStr _) = True"
| "is_PStr _ = False"

fun int_of :: "pyval \<Rightarrow> int" where
  "int_of (PInt i) = i"
| "int_of _ = 0"

fun str_of :: "pyval \<Rightarrow> string" where
  "str_of (PStr s) = s"
| "str_of _ = []"

definition sorted_py :: "('a \<Rightarrow> pyval) \<Rightarrow> 'a list \<Rightarrow> error + 'a list" where
  "sorted_py key xs =
     (if length xs \<le> 1 then Inr xs
      else if list_all (\<lambda>x. is_PInt (key x)) xs then Inr (sort_key (\<lambda>x. int_of (key x)) xs)
      else if list_all (\<lambda>x. is_PStr (key x)) xs then Inr (sort_key (\<lambda>x. str_of (key x)) xs)
      else Inl TypeError)"

text \<open>
  \<^verbatim>\<open>iter_chronologically\<close>: \<^verbatim>\<open>filter\<close>, then \<^verbatim>\<open>sorted\<close> with the key function.
\<close>

definition iter_chronologically ::
  "'a list \<Rightarrow> ('a \<Rightarrow> bool) \<Rightarrow> ('a \<Rightarrow> pyval) \<Rightarrow> error + 'a list" where
  "iter_chronologically list_object filter_func key_func =
     sorted_py key_func (filter filter_func list_object)"


section \<open>Resolved places\<close>

text \<open>
  The dataclass \<^verbatim>\<open>Coordinate\<close>: a coordinate pair in degrees with the city and the
  country that reverse geocoding found for it.
\<close>

record coordinate =
  latitude :: real
  longitude :: real
  city :: string
  country :: string

text \<open>
  \<^verbatim>\<open>Coordinate.reverse\<close> asks either the local gazetteer or a network service for the
  country and the city of a coordinate pair. The segmenter only uses its answer, so the
  lookup is a parameter \<open>rv\<close> here: it returns the pair (country, city) or raises.
  \<^verbatim>\<open>init_with_georeverse\<close> builds the instance and then fills in what the lookup
  returned.
\<close>

type_synonym reverser = "real \<Rightarrow> real \<Rightarrow> error + string \<times> string"

definition init_with_georeverse :: "reverser \<Rightarrow> real \<Rightarrow> real \<Rightarrow> error + coordinate" where
  "init_with_georeverse rv la lo =
     (case rv la lo of
        Inl e \<Rightarrow> Inl e
      | Inr (co, ci) \<Rightarrow> Inr \<lparr>latitude = la, longitude = lo, city = ci, country = co\<rparr>)"

text \<open>
  The attribute to compare is one of the data fields of \<^verbatim>\<open>Coordinate\<close>;
  \<^verbatim>\<open>getattr\<close> reads it.
\<close>

datatype attribute = City | Country | Latitude | Longitude

datatype attrval = AStr string | AFloat real

fun getattr :: "coordinate \<Rightarrow> attribute \<Rightarrow> attrval" where
  "getattr c City = AStr (city c)"
| "getattr c Country = AStr (country c)"
| "getattr c Latitude = AFloat (latitude c)"
| "getattr c Longitude = AFloat (longitude c)"

section \<open>The path segmenter\<close>

text \<open>
  A generator yields a sequence of values and then either ends or raises. Its run is the
  list of values yielded together with the exception that stopped it, if any.
\<close>

type_synonym event = "coordinate option \<times> int option \<times> coordinate \<times> int"

type_synonym 'a generated = "'a list \<times> error option"

definition attempt :: "error + 'a \<Rightarrow> ('a \<Rightarrow> 'b generated) \<Rightarrow> 'b generated" where
  "attempt r k = (case r of Inl e \<Rightarrow> ([], Some e) | Inr v \<Rightarrow> k v)"

definition yield :: "'b \<Rightarrow> 'b generated \<Rightarrow> 'b generated" where
  "yield v g = (v # fst g, snd g)"

text \<open>\<^verbatim>\<open>xs[i]\<close> for a non-negative index.\<close>

definition getitem :: "'a list \<Rightarrow> nat \<Rightarrow> error + 'a" where
  "getitem xs i = (if i < length xs then Inr (xs ! i) else Inl IndexError)"

text \<open>\<^verbatim>\<open>location["latitudeE7"] / 10000000\<close>, and the same for the longitude.\<close>

definition degrees :: "int option \<Rightarrow> error + real" where
  "degrees v = (case v of None \<Rightarrow> Inl KeyError | Some n \<Rightarrow> Inr (real_of_int n / 10000000))"

text \<open>
  The three statements that turn a location into a resolved place inside the loop:
  latitude, longitude, \<^verbatim>\<open>init_with_georeverse\<close>.
\<close>

definition resolve_location :: "reverser \<Rightarrow> item \<Rightarrow> error + coordinate" where
  "resolve_location rv location =
     (case degrees (latitudeE7 location) of
        Inl e \<Rightarrow> Inl e
      | Inr la \<Rightarrow>
          (case degrees (longitudeE7 location) of
             Inl e \<Rightarrow> Inl e
           | Inr lo \<Rightarrow> init_with_georeverse rv la lo))"

text \<open>
  The body of \<^verbatim>\<open>for index in range(1, end_index - 1)\<close>, over the list of the indices
  still to visit. \<open>cur\<close> is \<^verbatim>\<open>current_coordinate\<close>, which is \<^verbatim>\<open>None\<close> until
  the first iteration sets it from \<^verbatim>\<open>locations_chronological[index]\<close> (an instance of
  the dataclass is always true in a condition). The local \<^verbatim>\<open>last_coordinate\<close> is
  written but never read, and is left out.
\<close>

fun segment_loop ::
  "reverser \<Rightarrow> attribute \<Rightarrow> item list \<Rightarrow> coordinate option \<Rightarrow> item \<Rightarrow> nat list
     \<Rightarrow> event generated" where
  "segment_loop rv a lc cur last_location [] = ([], None)"
| "segment_loop rv a lc cur last_location (index # rest) =
     attempt
       (case cur of
          Some c \<Rightarrow> Inr c
        | None \<Rightarrow>
            (case getitem lc index of
               Inl e \<Rightarrow> Inl e
             | Inr current_location \<Rightarrow> resolve_location rv current_location))
       (\<lambda>current_coordinate.
     attempt (getitem lc (index + 1)) (\<lambda>next_location.
     attempt (resolve_location rv next_location) (\<lambda>next_coordinate.
       if getattr next_coordinate a \<noteq> getattr current_coordinate a then
         attempt (int_timestamp last_location) (\<lambda>last_timestamp.
         attempt (int_timestamp next_location) (\<lambda>next_timestamp.
           yield (Some current_coordinate, Some last_timestamp, next_coordinate, next_timestamp)
             (segment_loop rv a lc (Some next_coordinate) next_location rest)))
       else segment_loop rv a lc (Some next_coordinate) last_location rest)))"

text \<open>
  \<^verbatim>\<open>iter_unique_path_by_attribute\<close>. The statements before the first
  \<^verbatim>\<open>yield\<close> run in the order of the source: subscript 0, latitude, longitude,
  \<^verbatim>\<open>int\<close> of the timestamp, reverse geocoding.
\<close>

definition iter_unique_path_by_attribute ::
  "reverser \<Rightarrow> attribute \<Rightarrow> item list \<Rightarrow> (item \<Rightarrow> bool) \<Rightarrow> (item \<Rightarrow> pyval)
     \<Rightarrow> event generated" where
  "iter_unique_path_by_attribute rv a locations filter_func key_func =
     attempt (iter_chronologically locations filter_func key_func) (\<lambda>locations_chronological.
     attempt (getitem locations_chronological 0) (\<lambda>initial_location.
     attempt (degrees (latitudeE7 initial_location)) (\<lambda>initial_latitude.
     attempt (degrees (longitudeE7 initial_location)) (\<lambda>initial_longitude.
     attempt (int_timestamp initial_location) (\<lambda>initial_timestamp.
     attempt (init_with_georeverse rv initial_latitude initial_longitude) (\<lambda>initial_coordinate.
       yield (None, None, initial_coordinate, initial_timestamp)
         (segment_loop rv a locations_chronological None initial_location
            [1 ..< length locations_chronological - 1])))))))"

definition iter_unique_city_path ::
  "reverser \<Rightarrow> item list \<Rightarrow> (item \<Rightarrow> bool) \<Rightarrow> (item \<Rightarrow> pyval) \<Rightarrow> event generated" where
  "iter_unique_city_path rv = iter_unique_path_by_attribute rv City"

definition iter_unique_country_path ::
  "reverser \<Rightarrow> item list \<Rightarrow> (item \<Rightarrow> bool) \<Rightarrow> (item \<Rightarrow> pyval) \<Rightarrow> event generated" where
  "iter_unique_country_path rv = iter_unique_path_by_attribute rv Country"

text \<open>
  A small reverse geocoder for worked examples: everything west of the Greenwich
  meridian is in the US, everything else in France.
\<close>

definition atlantic_reverser :: reverser where
  "atlantic_reverser la lo =
     Inr (if lo < 0 then (''US'', ''Boston'') else (''FR'', ''Paris''))"

definition sample :: "int \<Rightarrow> int \<Rightarrow> pyval \<Rightarrow> item" where
  "sample la lo ts = \<lparr>latitudeE7 = Some la, longitudeE7 = Some lo, timestampMs = Some ts\<rparr>"

section \<open>The reference gazetteer\<close>

text \<open>
  A stored location is a dictionary with the keys \<^verbatim>\<open>country_code\<close> and \<^verbatim>\<open>city\<close>;
  the country table maps a country code to a country name.
\<close>

type_synonym location = "string \<rightharpoonup> string"

text \<open>
  The spatial index is an object of an external library. \<^verbatim>\<open>query\<close> distinguishes
  three outcomes of its search \<^verbatim>\<open>tree.query(coordinates, k=1)\<close>: it raises, it
  returns a plain \<^verbatim>\<open>int\<close> as index, or it returns a sequence of indices, one per
  query point. The index is represented by its search function.
\<close>

datatype neighbours = SearchFailed | OneIndex nat | ManyIndices "nat list"

record 'q geocode_data =
  tree :: "'q \<Rightarrow> neighbours"
  locations :: "location list"
  countries :: "string \<rightharpoonup> string"

text \<open>
  \<^verbatim>\<open>extract\<close>, for a compact file that exists: every row has the four columns
  latitude, longitude, country code and city. The coordinates are passed on as they are.
  (Deriving the compact file from the downloaded archive is not modelled.)
\<close>

definition extract_rows :: "('c \<times> 'c \<times> string \<times> string) list \<Rightarrow> ('c \<times> 'c) list \<times> location list" where
  "extract_rows rows =
     (map (\<lambda>(la, lo, cc, ci). (la, lo)) rows,
      map (\<lambda>(la, lo, cc, ci). [''country_code'' \<mapsto> cc, ''city'' \<mapsto> ci]) rows)"

text \<open>\<^verbatim>\<open>load_countries\<close>: each row of the country file overwrites the entry of its code.\<close>

definition load_countries ::
  "(string \<times> string) list \<Rightarrow> (string \<rightharpoonup> string) \<Rightarrow> (string \<rightharpoonup> string)" where
  "load_countries rows cs = fold (\<lambda>(code, name) m. m(code \<mapsto> name)) rows cs"

text \<open>
  \<^verbatim>\<open>GeocodeData.__init__\<close> on the contents of the two files. \<open>KDTree\<close> is the
  constructor of the index: it builds the search function from the coordinates, or raises.
\<close>

definition GeocodeData_init ::
  "(('c \<times> 'c) list \<Rightarrow> error + ('q \<Rightarrow> neighbours)) \<Rightarrow> ('c \<times> 'c \<times> string \<times> string) list
     \<Rightarrow> (string \<times> string) list \<Rightarrow> error + 'q geocode_data" where
  "GeocodeData_init KDTree geocode_rows country_rows =
     (case extract_rows geocode_rows of
        (coordinates, locs) \<Rightarrow>
          (case KDTree coordinates of
             Inl e \<Rightarrow> Inl e
           | Inr t \<Rightarrow>
               Inr \<lparr>tree = t, locations = locs,
                    countries = load_countries country_rows Map.empty\<rparr>))"

text \<open>
  \<^verbatim>\<open>Singleton.__call__\<close>: the class attribute \<^verbatim>\<open>_instance\<close> is the state. An
  instance is constructed only while the attribute is still \<^verbatim>\<open>None\<close>; \<open>built\<close>
  is what the constructor returns or raises.
\<close>

definition Singleton_call :: "error + 'g \<Rightarrow> 'g option \<Rightarrow> (error + 'g) \<times> 'g option" where
  "Singleton_call built inst =
     (case inst of
        Some g \<Rightarrow> (Inr g, Some g)
      | None \<Rightarrow>
          (case built of
             Inl e \<Rightarrow> (Inl e, None)
           | Inr g \<Rightarrow> (Inr g, Some g)))"

text \<open>
  The loop \<^verbatim>\<open>for result in results: result['country'] = ...\<close>. Every \<open>result\<close> is
  one of the stored dictionaries, so the assignment writes into the stored list; the
  subscript \<^verbatim>\<open>result['country_code']\<close> raises \<^verbatim>\<open>KeyError\<close> on a missing key, and
  \<^verbatim>\<open>countries.get(code, '')\<close> defaults to the empty string.
\<close>

fun set_countries ::
  "(string \<rightharpoonup> string) \<Rightarrow> location list \<Rightarrow> nat list \<Rightarrow> error option \<times> location list" where
  "set_countries cs locs [] = (None, locs)"
| "set_countries cs locs (index # rest) =
     (case (locs ! index) ''country_code'' of
        None \<Rightarrow> (Some KeyError, locs)
      | Some code \<Rightarrow>
          set_countries cs
            (locs[index := (locs ! index)(''country'' \<mapsto> (case cs code of None \<Rightarrow> [] | Some name \<Rightarrow> name))])
            rest)"

text \<open>
  \<^verbatim>\<open>GeocodeData.query\<close>, returning its result and the instance afterwards. The bare
  \<^verbatim>\<open>except\<close> covers the search only. The comprehension
  \<^verbatim>\<open>[self.locations[index] for index in indices]\<close> raises \<^verbatim>\<open>IndexError\<close> for an
  index beyond the stored list, before anything is written.
\<close>

definition query :: "'q geocode_data \<Rightarrow> 'q \<Rightarrow> (error + location list) \<times> 'q geocode_data" where
  "query gd coordinates =
     (case tree gd coordinates of
        SearchFailed \<Rightarrow> (Inl ValueError, gd)
      | OneIndex i \<Rightarrow> (Inr [Map.empty], gd)
      | ManyIndices indices \<Rightarrow>
          (if list_all (\<lambda>index. index < length (locations gd)) indices then
             (case set_countries (countries gd) (locations gd) indices of
                (Some e, locs) \<Rightarrow> (Inl e, gd\<lparr>locations := locs\<rparr>)
              | (None, locs) \<Rightarrow> (Inr (map (\<lambda>index. locs ! index) indices), gd\<lparr>locations := locs\<rparr>))
           else (Inl IndexError, gd)))"

text \<open>
  \<^verbatim>\<open>reverse_coordinates\<close>: get the singleton, query the one-element list, take the
  first result. The state is the class attribute holding the instance.
\<close>

definition reverse_coordinates ::
  "error + ('p list) geocode_data \<Rightarrow> 'p \<Rightarrow> ('p list) geocode_data option
     \<Rightarrow> (error + location) \<times> ('p list) geocode_data option" where
  "reverse_coordinates built coordinate inst =
     (case Singleton_call built inst of
        (Inl e, inst') \<Rightarrow> (Inl e, inst')
      | (Inr gd, inst') \<Rightarrow>
          (case query gd [coordinate] of
             (Inl e, gd') \<Rightarrow> (Inl e, Some gd')
           | (Inr results, gd') \<Rightarrow> (getitem results 0, Some gd')))"

text \<open>\<^verbatim>\<open>search\<close>: the same for a list of coordinates.\<close>

definition search ::
  "error + 'q geocode_data \<Rightarrow> 'q \<Rightarrow> 'q geocode_data option
     \<Rightarrow> (error + location list) \<times> 'q geocode_data option" where
  "search built coordinates inst =
     (case Singleton_call built inst of
        (Inl e, inst') \<Rightarrow> (Inl e, inst')
      | (Inr gd, inst') \<Rightarrow>
          (case query gd coordinates of (r, gd') \<Rightarrow> (r, Some gd')))"

subsection \<open>A nearest-neighbour search to run examples with\<close>

text \<open>
  Modelled from the spec: the search of the spatial index, which belongs to an external
  library and is not in the repository. For each query point it returns the index of the
  single nearest reference point by Euclidean distance over the raw degree coordinates.
  This version scans the list and takes the first of several nearest points. As in the
  library, an empty reference list is not an array of points and the constructor raises
  for it, and an empty list of query points is not an array of points and the search
  raises for it.
\<close>

definition sq_dist :: "real \<times> real \<Rightarrow> real \<times> real \<Rightarrow> real" where
  "sq_dist p q = (fst p - fst q)\<^sup>2 + (snd p - snd q)\<^sup>2"

definition nearest :: "(real \<times> real) list \<Rightarrow> real \<times> real \<Rightarrow> nat" where
  "nearest coords q =
     (if coords = [] then 0
      else arg_min_list (\<lambda>i. sq_dist (coords ! i) q) [0 ..< length coords])"

definition scan_search :: "(real \<times> real) list \<Rightarrow> (real \<times> real) list \<Rightarrow> neighbours" where
  "scan_search coords qs = (if qs = [] then SearchFailed else ManyIndices (map (nearest coords) qs))"

definition scan_tree :: "(real \<times> real) list \<Rightarrow> error + ((real \<times> real) list \<Rightarrow> neighbours)" where
  "scan_tree coords = (if coords = [] then Inl ValueError else Inr (scan_search coords))"

text \<open>An index whose search raises on every query.\<close>

definition failing_tree :: "'c list \<Rightarrow> error + ('q \<Rightarrow> neighbours)" where
  "failing_tree coords = Inr (\<lambda>qs. SearchFailed)"

text \<open>
  An index whose search answers with a plain \<^verbatim>\<open>int\<close>, the index of its first
  reference point, instead of a sequence of indices.
\<close>

definition plain_int_search :: "'q \<Rightarrow> neighbours" where
  "plain_int_search qs = OneIndex 0"

section \<open>Auxiliary notions for the statements\<close>

text \<open>Whether a step that may raise has returned a value.\<close>

definition succeeded :: "error + 'a \<Rightarrow> bool" where
  "succeeded r = (case r of Inl _ \<Rightarrow> False | Inr _ \<Rightarrow> True)"

text \<open>The four components of an emitted event.\<close>

definition previous_place :: "event \<Rightarrow> coordinate option" where
  "previous_place ev = fst ev"

definition previous_timestamp :: "event \<Rightarrow> int option" where
  "previous_timestamp ev = fst (snd ev)"

definition next_place :: "event \<Rightarrow> coordinate" where
  "next_place ev = fst (snd (snd ev))"

definition next_timestamp :: "event \<Rightarrow> int" where
  "next_timestamp ev = snd (snd (snd ev))"

text \<open>Samples taken in Boston and in Paris, and the places they resolve to.\<close>

definition boston :: "pyval \<Rightarrow> item" where
  "boston ts = sample 423601000 (- 710589000) ts"

definition paris :: "pyval \<Rightarrow> item" where
  "paris ts = sample 488566000 23522000 ts"

definition boston_place :: coordinate where
  "boston_place =
     \<lparr>latitude = 423601000 / 10000000, longitude = - 710589000 / 10000000,
      city = ''Boston'', country = ''US''\<rparr>"

definition paris_place :: coordinate where
  "paris_place =
     \<lparr>latitude = 488566000 / 10000000, longitude = 23522000 / 10000000,
      city = ''Paris'', country = ''FR''\<rparr>"

text \<open>A reverse geocoder that is out of service: every lookup raises.\<close>

definition unavailable_reverser :: reverser where
  "unavailable_reverser la lo = Inl ValueError"

text \<open>A record without a latitude, and a sample whose timestamp is not a number.\<close>

definition no_latitude :: item where
  "no_latitude = \<lparr>latitudeE7 = None, longitudeE7 = Some 23522000, timestampMs = Some (PInt 100)\<rparr>"

definition no_longitude :: item where
  "no_longitude = \<lparr>latitudeE7 = Some 488566000, longitudeE7 = None, timestampMs = Some (PInt 100)\<rparr>"

text \<open>
  Small gazetteers: one with the single entry Origin, as constructed from its two files
  and as the instance that the construction returns; the same instance with an index that
  answers with a plain \<^verbatim>\<open>int\<close>; and one in which a second entry has the same
  coordinates as the first.
\<close>

definition origin_gazetteer :: "((real \<times> real) list) geocode_data" where
  "origin_gazetteer =
     \<lparr>tree = scan_search [(0, 0)],
      locations = [[''country_code'' \<mapsto> ''XX'', ''city'' \<mapsto> ''Origin'']],
      countries = [''XX'' \<mapsto> ''Originland'']\<rparr>"

definition plain_int_gazetteer :: "((real \<times> real) list) geocode_data" where
  "plain_int_gazetteer = origin_gazetteer\<lparr>tree := plain_int_search\<rparr>"

definition origin_data :: "error + ((real \<times> real) list) geocode_data" where
  "origin_data =
     GeocodeData_init scan_tree [(0, 0, ''XX'', ''Origin'')] [(''XX'', ''Originland'')]"

definition shadow_data :: "error + ((real \<times> real) list) geocode_data" where
  "shadow_data =
     GeocodeData_init scan_tree
       [(0, 0, ''XX'', ''Origin''), (0, 0, ''YY'', ''Shadow'')]
       [(''XX'', ''Originland''), (''YY'', ''Shadowland'')]"

definition broken_data :: "error + ((real \<times> real) list) geocode_data" where
  "broken_data =
     GeocodeData_init failing_tree [(0 :: real, 0 :: real, ''XX'', ''Origin'')]
       [(''XX'', ''Originland'')]"


section \<open>Properties of the chronological filter\<close>








section \<open>Properties of the path segmenter\<close>

lemma segment_loop_length:
  "length (fst (segment_loop rv a lc cur last_location idxs)) \<le> length idxs"
proof (induction idxs arbitrary: cur last_location)
  case Nil
  then show ?case by simp
next
  case (Cons index rest)
  have step: "\<And>c l. length (fst (segment_loop rv a lc c l rest)) \<le> length rest"
    by (rule Cons.IH)
  show ?case
    by (auto simp add: attempt_def yield_def le_SucI step split: sum.splits option.splits)
qed

lemma first_event:
  assumes "iter_chronologically ls f k = Inr (x # xs)"
    and "resolve_location rv x = Inr c"
    and "int_timestamp x = Inr t"
  shows "iter_unique_path_by_attribute rv a ls f k =
           yield (None, None, c, t) (segment_loop rv a (x # xs) None x [1 ..< length xs])"
  using assms
  by (auto simp add: iter_unique_path_by_attribute_def attempt_def getitem_def
      resolve_location_def split: sum.splits)

lemma no_first_event:
  assumes "iter_chronologically ls f k = Inr (x # xs)"
    and "\<not> (succeeded (resolve_location rv x) \<and> succeeded (int_timestamp x))"
  shows "fst (iter_unique_path_by_attribute rv a ls f k) = []
       \<and> snd (iter_unique_path_by_attribute rv a ls f k) \<noteq> None"
  using assms
  by (auto simp add: iter_unique_path_by_attribute_def attempt_def getitem_def succeeded_def
      resolve_location_def split: sum.splits)

lemma resolve_boston: "resolve_location atlantic_reverser (boston ts) = Inr boston_place"
  by (simp add: resolve_location_def degrees_def boston_def sample_def init_with_georeverse_def
      atlantic_reverser_def boston_place_def)

lemma resolve_paris: "resolve_location atlantic_reverser (paris ts) = Inr paris_place"
  by (simp add: resolve_location_def degrees_def paris_def sample_def init_with_georeverse_def
      atlantic_reverser_def paris_place_def)

lemma timestamp_samples:
  "timestampMs (boston ts) = Some ts" "timestampMs (paris ts) = Some ts"
  by (simp_all add: boston_def paris_def sample_def)

lemma int_timestamp_samples:
  "int_timestamp (boston (PInt n)) = Inr n" "int_timestamp (paris (PInt n)) = Inr n"
  by (simp_all add: int_timestamp_def timestamp_samples)

lemma chronological_ints:
  "iter_chronologically [boston (PInt 100), paris (PInt 200), paris (PInt 300)]
     default_filter_func default_key_func
   = Inr [boston (PInt 100), paris (PInt 200), paris (PInt 300)]"
  by (simp add: iter_chronologically_def sorted_py_def default_filter_func_def
      default_key_func_def timestamp_samples)

text \<open>
  C7. Whenever the filtered, sorted input has \<open>n \<ge> 2\<close> samples (in particular when
  their timestamps are strictly increasing), the segmenter yields at most \<open>n - 1\<close>
  events, whether it ends normally or is stopped by an exception. The first event it
  yields has a null previous place and a null previous timestamp, and there is such a first
  event as soon as the first sample has its three fields and can be resolved.
\<close>

theorem event_count_bound:
  assumes chrono: "iter_chronologically locs filter_func key_func = Inr lc"
    and two: "2 \<le> length lc"
  shows "length (fst (iter_unique_path_by_attribute rv a locs filter_func key_func))
           \<le> length lc - 1
       \<and> (\<forall>ev \<in> set (take 1 (fst (iter_unique_path_by_attribute rv a locs filter_func key_func))).
             previous_place ev = None \<and> previous_timestamp ev = None)
       \<and> (succeeded (resolve_location rv (hd lc)) \<and> succeeded (int_timestamp (hd lc)) \<longrightarrow>
             fst (iter_unique_path_by_attribute rv a locs filter_func key_func) \<noteq> [])"
proof -
  from two obtain x xs where lc: "lc = x # xs" and xs: "1 \<le> length xs"
    by (cases lc) auto
  show ?thesis
  proof (cases "succeeded (resolve_location rv x) \<and> succeeded (int_timestamp x)")
    case False
    then have "fst (iter_unique_path_by_attribute rv a locs filter_func key_func) = []"
      using chrono lc no_first_event by blast
    then show ?thesis using False lc by simp
  next
    case True
    then obtain c t where c: "resolve_location rv x = Inr c" and t: "int_timestamp x = Inr t"
      by (auto simp add: succeeded_def split: sum.splits)
    have run: "iter_unique_path_by_attribute rv a locs filter_func key_func =
        yield (None, None, c, t) (segment_loop rv a (x # xs) None x [1 ..< length xs])"
      using chrono c t unfolding lc by (rule first_event)
    have "length (fst (segment_loop rv a (x # xs) None x [1 ..< length xs])) \<le> length xs - 1"
      using segment_loop_length [of rv a "x # xs" None x "[1 ..< length xs]"] by simp
    then show ?thesis
      using xs by (simp add: run yield_def lc previous_place_def previous_timestamp_def)
  qed
qed

lemma boston_paris_paris_run:
  "iter_unique_path_by_attribute atlantic_reverser Country
     [boston (PInt 100), paris (PInt 200), paris (PInt 300)]
     default_filter_func default_key_func
   = ([(None, None, boston_place, 100)], None)"
proof -
  have idx: "[1 ..< length [paris (PInt 200), paris (PInt 300)]] = [1]"
    by (simp add: upt_rec)
  have loop: "segment_loop atlantic_reverser Country
                [boston (PInt 100), paris (PInt 200), paris (PInt 300)] None
                (boston (PInt 100)) [1] = ([], None)"
    by (simp add: attempt_def getitem_def resolve_paris)
  show ?thesis
    using first_event [OF chronological_ints resolve_boston int_timestamp_samples(1), of Country]
    by (simp only: idx loop yield_def fst_conv snd_conv)
qed

text \<open>
  Witness for C7: three samples, the first in Boston and the other two in Paris.
\<close>

theorem event_count_bound_witness:
  "iter_chronologically [boston (PInt 100), paris (PInt 200), paris (PInt 300)]
     default_filter_func default_key_func
     = Inr [boston (PInt 100), paris (PInt 200), paris (PInt 300)]
   \<and> 2 \<le> length [boston (PInt 100), paris (PInt 200), paris (PInt 300)]
   \<and> succeeded (resolve_location atlantic_reverser (boston (PInt 100)))
   \<and> succeeded (int_timestamp (boston (PInt 100)))
   \<and> length (fst (iter_unique_path_by_attribute atlantic_reverser Country
        [boston (PInt 100), paris (PInt 200), paris (PInt 300)]
        default_filter_func default_key_func)) \<le> 2
   \<and> map previous_place (take 1 (fst (iter_unique_path_by_attribute atlantic_reverser Country
        [boston (PInt 100), paris (PInt 200), paris (PInt 300)]
        default_filter_func default_key_func))) = [None]
   \<and> map previous_timestamp (take 1 (fst (iter_unique_path_by_attribute atlantic_reverser
        Country [boston (PInt 100), paris (PInt 200), paris (PInt 300)]
        default_filter_func default_key_func))) = [None]"
proof -
  have two: "2 \<le> length [boston (PInt 100), paris (PInt 200), paris (PInt 300)]"
    by simp
  show ?thesis
    using event_count_bound [OF chronological_ints two, of atlantic_reverser Country]
    by (simp add: chronological_ints resolve_boston int_timestamp_samples succeeded_def
        boston_paris_paris_run previous_place_def previous_timestamp_def)
qed

text \<open>
  C10. When the filtered, sorted input has exactly two samples, and the first of them has
  its three fields and can be resolved, the segmenter yields exactly one event, the initial
  one with null previous place and timestamp, and ends without an exception. The second
  sample is not looked at, so this also holds when the two samples resolve to different
  values of the watched attribute: the range of the loop, \<^verbatim>\<open>range(1, 1)\<close>, is empty
  and the loop body is never entered.
\<close>

theorem two_samples_one_event:
  assumes "iter_chronologically locs filter_func key_func = Inr [x, y]"
    and "resolve_location rv x = Inr c"
    and "int_timestamp x = Inr t"
  shows "iter_unique_path_by_attribute rv a locs filter_func key_func
           = ([(None, None, c, t)], None)
       \<and> [1 ..< length [x, y] - 1] = []"
  using first_event [OF assms, of a] by (simp add: yield_def)

lemma chronological_pair:
  "iter_chronologically [paris (PInt 200), boston (PInt 100)]
     default_filter_func default_key_func
   = Inr [boston (PInt 100), paris (PInt 200)]"
  by (simp add: iter_chronologically_def sorted_py_def default_filter_func_def
      default_key_func_def timestamp_samples)

text \<open>
  Witness for C10: a sample in Paris at 200 and one in Boston at 100; the two countries
  differ, and only the initial event for Boston is yielded.
\<close>

theorem two_samples_one_event_witness:
  "iter_chronologically [paris (PInt 200), boston (PInt 100)]
     default_filter_func default_key_func = Inr [boston (PInt 100), paris (PInt 200)]
   \<and> resolve_location atlantic_reverser (boston (PInt 100)) = Inr boston_place
   \<and> resolve_location atlantic_reverser (paris (PInt 200)) = Inr paris_place
   \<and> country boston_place \<noteq> country paris_place
   \<and> int_timestamp (boston (PInt 100)) = Inr 100
   \<and> iter_unique_path_by_attribute atlantic_reverser Country
        [paris (PInt 200), boston (PInt 100)] default_filter_func default_key_func
      = ([(None, None, boston_place, 100)], None)"
  using two_samples_one_event
    [OF chronological_pair resolve_boston int_timestamp_samples(1), of Country]
  by (simp add: chronological_pair resolve_boston resolve_paris int_timestamp_samples
      boston_place_def paris_place_def)

text \<open>
  C3. For four samples with timestamps 100, 200, 300 and 400 whose resolved countries are
  US, US, FR and FR, segmenting on the country yields exactly two events and no exception:
  the initial event (null, null, place of the first sample, 100), and one transition event
  whose previous timestamp is 100 and whose next place and timestamp are the French place
  of the third sample and 300. (Its previous place is the place of the second sample.)
\<close>

theorem four_sample_scenario:
  assumes "timestampMs s1 = Some (PInt 100)" and "timestampMs s2 = Some (PInt 200)"
    and "timestampMs s3 = Some (PInt 300)" and "timestampMs s4 = Some (PInt 400)"
    and "resolve_location rv s1 = Inr p1" and "resolve_location rv s2 = Inr p2"
    and "resolve_location rv s3 = Inr p3" and "resolve_location rv s4 = Inr p4"
    and "country p1 = ''US''" and "country p2 = ''US''"
    and "country p3 = ''FR''" and "country p4 = ''FR''"
  shows "iter_unique_country_path rv [s1, s2, s3, s4] default_filter_func default_key_func
           = ([(None, None, p1, 100), (Some p2, Some 100, p3, 300)], None)"
proof -
  have chrono: "iter_chronologically [s1, s2, s3, s4] default_filter_func default_key_func
                  = Inr [s1, s2, s3, s4]"
    using assms(1-4)
    by (simp add: iter_chronologically_def sorted_py_def default_filter_func_def
        default_key_func_def)
  have ts: "int_timestamp s1 = Inr 100" "int_timestamp s3 = Inr 300"
    using assms(1,3) by (simp_all add: int_timestamp_def)
  have loop: "segment_loop rv Country [s1, s2, s3, s4] None s1 [1, 2]
                = ([(Some p2, Some 100, p3, 300)], None)"
    using assms(5-12) ts by (simp add: attempt_def yield_def getitem_def)
  have idx: "[1 ..< length [s2, s3, s4]] = [1, 2]"
    by (simp add: upt_rec)
  show ?thesis
    unfolding iter_unique_country_path_def
    using first_event [OF chrono assms(5) ts(1), of Country]
    by (simp only: idx loop yield_def fst_conv snd_conv)
qed

text \<open>Witness for C3: two samples in Boston followed by two in Paris.\<close>

theorem four_sample_scenario_witness:
  "timestampMs (boston (PInt 100)) = Some (PInt 100)
   \<and> timestampMs (boston (PInt 200)) = Some (PInt 200)
   \<and> timestampMs (paris (PInt 300)) = Some (PInt 300)
   \<and> timestampMs (paris (PInt 400)) = Some (PInt 400)
   \<and> resolve_location atlantic_reverser (boston (PInt 100)) = Inr boston_place
   \<and> resolve_location atlantic_reverser (boston (PInt 200)) = Inr boston_place
   \<and> resolve_location atlantic_reverser (paris (PInt 300)) = Inr paris_place
   \<and> resolve_location atlantic_reverser (paris (PInt 400)) = Inr paris_place
   \<and> country boston_place = ''US'' \<and> country paris_place = ''FR''
   \<and> iter_unique_country_path atlantic_reverser
        [boston (PInt 100), boston (PInt 200), paris (PInt 300), paris (PInt 400)]
        default_filter_func default_key_func
      = ([(None, None, boston_place, 100), (Some boston_place, Some 100, paris_place, 300)],
         None)"
proof -
  have us: "country boston_place = ''US''" and fr: "country paris_place = ''FR''"
    by (simp_all add: boston_place_def paris_place_def)
  show ?thesis
    using four_sample_scenario
      [OF timestamp_samples(1) timestamp_samples(1) timestamp_samples(2) timestamp_samples(2)
          resolve_boston resolve_boston resolve_paris resolve_paris us us fr fr]
    by (simp add: timestamp_samples resolve_boston resolve_paris us fr)
qed

text \<open>
  Counterexample to C2 as stated: the filtered input has exactly one sample, and the
  segmenter yields the initial event and ends normally; nothing is raised.
\<close>

theorem single_sample_succeeds_silently:
  "iter_chronologically [boston (PInt 100)] default_filter_func default_key_func
     = Inr [boston (PInt 100)]
   \<and> iter_unique_country_path atlantic_reverser [boston (PInt 100)]
        default_filter_func default_key_func
      = ([(None, None, boston_place, 100)], None)"
  by (simp add: iter_unique_country_path_def iter_unique_path_by_attribute_def
      iter_chronologically_def sorted_py_def default_filter_func_def default_key_func_def
      attempt_def yield_def getitem_def degrees_def int_timestamp_def init_with_georeverse_def
      atlantic_reverser_def boston_def sample_def boston_place_def)

lemma raised_before_first_event:
  assumes "iter_chronologically ls f k = Inr (x # xs)"
  shows "(latitudeE7 x = None \<longrightarrow>
            iter_unique_path_by_attribute rv a ls f k = ([], Some KeyError))
       \<and> (\<forall>la. latitudeE7 x = Some la \<and> longitudeE7 x = None \<longrightarrow>
            iter_unique_path_by_attribute rv a ls f k = ([], Some KeyError))
       \<and> (\<forall>la lo e. latitudeE7 x = Some la \<and> longitudeE7 x = Some lo
              \<and> int_timestamp x = Inl e \<longrightarrow>
            iter_unique_path_by_attribute rv a ls f k = ([], Some e))
       \<and> (\<forall>la lo t e. latitudeE7 x = Some la \<and> longitudeE7 x = Some lo
              \<and> int_timestamp x = Inr t
              \<and> rv (real_of_int la / 10000000) (real_of_int lo / 10000000) = Inl e \<longrightarrow>
            iter_unique_path_by_attribute rv a ls f k = ([], Some e))"
  using assms
  by (auto simp add: iter_unique_path_by_attribute_def attempt_def getitem_def degrees_def
      init_with_georeverse_def)

lemma int_timestamp_errors:
  "(timestampMs x = None \<longrightarrow> int_timestamp x = Inl KeyError)
   \<and> (timestampMs x = Some PNone \<longrightarrow> int_timestamp x = Inl TypeError)
   \<and> (\<forall>s. timestampMs x = Some (PStr s) \<and> int_of_string s = None \<longrightarrow>
         int_timestamp x = Inl ValueError)"
  by (simp add: int_timestamp_def)

text \<open>
  C2, amended. When the filtered input is empty, the segmenter raises \<^verbatim>\<open>IndexError\<close>
  (from the subscript 0) before it yields anything. When the filtered input has exactly one
  sample that has its three fields and can be resolved, the segmenter yields the initial
  event and ends without an exception. Otherwise it yields nothing and raises the exception
  of the first step that fails, in this order: \<^verbatim>\<open>KeyError\<close> for a missing
  \<^verbatim>\<open>latitudeE7\<close>; \<^verbatim>\<open>KeyError\<close> for a missing \<^verbatim>\<open>longitudeE7\<close>; for the
  timestamp \<^verbatim>\<open>KeyError\<close> when it is missing, \<^verbatim>\<open>TypeError\<close> when it is null and
  \<^verbatim>\<open>ValueError\<close> when it is a string that is not a number; and last the exception
  that reverse geocoding raises. The code has no exception for insufficient data.
\<close>

theorem short_input_outcome:
  assumes "iter_chronologically locs filter_func key_func = Inr lc"
    and "length lc \<le> 1"
  shows "(lc = [] \<longrightarrow>
            iter_unique_path_by_attribute rv a locs filter_func key_func
              = ([], Some IndexError))
       \<and> (\<forall>x c t. lc = [x] \<and> resolve_location rv x = Inr c \<and> int_timestamp x = Inr t \<longrightarrow>
            iter_unique_path_by_attribute rv a locs filter_func key_func
              = ([(None, None, c, t)], None))
       \<and> (\<forall>x. lc = [x] \<and> latitudeE7 x = None \<longrightarrow>
            iter_unique_path_by_attribute rv a locs filter_func key_func
              = ([], Some KeyError))
       \<and> (\<forall>x la. lc = [x] \<and> latitudeE7 x = Some la \<and> longitudeE7 x = None \<longrightarrow>
            iter_unique_path_by_attribute rv a locs filter_func key_func
              = ([], Some KeyError))
       \<and> (\<forall>x la lo. lc = [x] \<and> latitudeE7 x = Some la \<and> longitudeE7 x = Some lo
              \<and> timestampMs x = None \<longrightarrow>
            iter_unique_path_by_attribute rv a locs filter_func key_func
              = ([], Some KeyError))
       \<and> (\<forall>x la lo. lc = [x] \<and> latitudeE7 x = Some la \<and> longitudeE7 x = Some lo
              \<and> timestampMs x = Some PNone \<longrightarrow>
            iter_unique_path_by_attribute rv a locs filter_func key_func
              = ([], Some TypeError))
       \<and> (\<forall>x la lo s. lc = [x] \<and> latitudeE7 x = Some la \<and> longitudeE7 x = Some lo
              \<and> timestampMs x = Some (PStr s) \<and> int_of_string s = None \<longrightarrow>
            iter_unique_path_by_attribute rv a locs filter_func key_func
              = ([], Some ValueError))
       \<and> (\<forall>x la lo t e. lc = [x] \<and> latitudeE7 x = Some la \<and> longitudeE7 x = Some lo
              \<and> int_timestamp x = Inr t
              \<and> rv (real_of_int la / 10000000) (real_of_int lo / 10000000) = Inl e \<longrightarrow>
            iter_unique_path_by_attribute rv a locs filter_func key_func
              = ([], Some e))"
proof (cases lc)
  case Nil
  then show ?thesis
    using assms(1) by (simp add: iter_unique_path_by_attribute_def attempt_def getitem_def)
next
  case (Cons x xs)
  with assms(2) have lc: "lc = [x]" by simp
  from assms(1) lc have chrono: "iter_chronologically locs filter_func key_func = Inr [x]"
    by simp
  note raised = raised_before_first_event [OF chrono, of rv a]
  note ts = int_timestamp_errors [of x]
  have ok: "\<forall>c t. resolve_location rv x = Inr c \<and> int_timestamp x = Inr t \<longrightarrow>
            iter_unique_path_by_attribute rv a locs filter_func key_func
              = ([(None, None, c, t)], None)"
    using first_event [OF chrono, of rv _ _ a] by (simp add: yield_def)
  show ?thesis
    unfolding lc using raised ts ok by (simp (no_asm_simp)) blast
qed

lemma chronological_nothing:
  "iter_chronologically [paris (PInt 0)] default_filter_func default_key_func = Inr []"
  by (simp add: iter_chronologically_def sorted_py_def default_filter_func_def
      timestamp_samples)

lemma chronological_single:
  "iter_chronologically [boston (PInt 100), paris (PInt 0)] default_filter_func default_key_func
     = Inr [boston (PInt 100)]"
  by (simp add: iter_chronologically_def sorted_py_def default_filter_func_def
      timestamp_samples)

lemma chronological_one:
  "timestampMs x \<noteq> None \<Longrightarrow> timestampMs x \<noteq> Some (PInt 0) \<Longrightarrow>
     iter_chronologically [x] default_filter_func default_key_func = Inr [x]"
  by (auto simp add: iter_chronologically_def sorted_py_def default_filter_func_def
      split: option.splits)

text \<open>
  Witness for C2, amended: an input whose only record has timestamp 0 and is filtered
  out; an input of which one good sample is left; and single samples that lack the
  latitude, lack the longitude, have a timestamp that is not a number, have a null
  timestamp, or meet a reverse geocoder that is out of service.
\<close>

theorem short_input_outcome_witness:
  "iter_chronologically [paris (PInt 0)] default_filter_func default_key_func = Inr []
   \<and> iter_unique_path_by_attribute atlantic_reverser Country [paris (PInt 0)]
        default_filter_func default_key_func = ([], Some IndexError)
   \<and> iter_chronologically [boston (PInt 100), paris (PInt 0)]
        default_filter_func default_key_func = Inr [boston (PInt 100)]
   \<and> resolve_location atlantic_reverser (boston (PInt 100)) = Inr boston_place
   \<and> int_timestamp (boston (PInt 100)) = Inr 100
   \<and> iter_unique_path_by_attribute atlantic_reverser Country
        [boston (PInt 100), paris (PInt 0)] default_filter_func default_key_func
      = ([(None, None, boston_place, 100)], None)
   \<and> iter_chronologically [no_latitude] default_filter_func default_key_func
      = Inr [no_latitude]
   \<and> latitudeE7 no_latitude = None
   \<and> iter_unique_path_by_attribute atlantic_reverser Country [no_latitude]
        default_filter_func default_key_func = ([], Some KeyError)
   \<and> iter_chronologically [no_longitude] default_filter_func default_key_func
      = Inr [no_longitude]
   \<and> longitudeE7 no_longitude = None
   \<and> iter_unique_path_by_attribute atlantic_reverser Country [no_longitude]
        default_filter_func default_key_func = ([], Some KeyError)
   \<and> iter_chronologically [paris (PStr ''soon'')] default_filter_func default_key_func
      = Inr [paris (PStr ''soon'')]
   \<and> int_of_string ''soon'' = None
   \<and> iter_unique_path_by_attribute atlantic_reverser Country [paris (PStr ''soon'')]
        default_filter_func default_key_func = ([], Some ValueError)
   \<and> iter_chronologically [paris PNone] default_filter_func default_key_func
      = Inr [paris PNone]
   \<and> iter_unique_path_by_attribute atlantic_reverser Country [paris PNone]
        default_filter_func default_key_func = ([], Some TypeError)
   \<and> iter_chronologically [paris (PInt 100)] default_filter_func default_key_func
      = Inr [paris (PInt 100)]
   \<and> unavailable_reverser (real_of_int 488566000 / 10000000) (real_of_int 23522000 / 10000000)
      = Inl ValueError
   \<and> iter_unique_path_by_attribute unavailable_reverser Country [paris (PInt 100)]
        default_filter_func default_key_func = ([], Some ValueError)"
proof -
  have none: "length ([] :: item list) \<le> 1" and one: "\<And>x :: item. length [x] \<le> 1"
    by simp_all
  have c1: "iter_chronologically [no_latitude] default_filter_func default_key_func
      = Inr [no_latitude]"
    by (rule chronological_one) (simp_all add: no_latitude_def)
  have c2: "iter_chronologically [no_longitude] default_filter_func default_key_func
      = Inr [no_longitude]"
    by (rule chronological_one) (simp_all add: no_longitude_def)
  have c3: "iter_chronologically [paris (PStr ''soon'')] default_filter_func default_key_func
      = Inr [paris (PStr ''soon'')]"
    by (rule chronological_one) (simp_all add: timestamp_samples)
  have c4: "iter_chronologically [paris PNone] default_filter_func default_key_func
      = Inr [paris PNone]"
    by (rule chronological_one) (simp_all add: timestamp_samples)
  have c5: "iter_chronologically [paris (PInt 100)] default_filter_func default_key_func
      = Inr [paris (PInt 100)]"
    by (rule chronological_one) (simp_all add: timestamp_samples)
  have soon: "int_of_string ''soon'' = None"
    by (simp add: int_of_string_def strip_def is_space_def parse_nat_def digit_val_def)
  have fields: "latitudeE7 no_latitude = None" "longitudeE7 no_latitude = Some 23522000"
    "latitudeE7 no_longitude = Some 488566000" "longitudeE7 no_longitude = None"
    "latitudeE7 (paris ts) = Some 488566000" "longitudeE7 (paris ts) = Some 23522000" for ts
    by (simp_all add: no_latitude_def no_longitude_def paris_def sample_def)
  show ?thesis
    using short_input_outcome [OF chronological_nothing none, of atlantic_reverser Country]
      short_input_outcome [OF chronological_single one, of atlantic_reverser Country]
      short_input_outcome [OF c1 one, of atlantic_reverser Country]
      short_input_outcome [OF c2 one, of atlantic_reverser Country]
      short_input_outcome [OF c3 one, of atlantic_reverser Country]
      short_input_outcome [OF c4 one, of atlantic_reverser Country]
      short_input_outcome [OF c5 one, of unavailable_reverser Country]
    by (simp add: chronological_nothing chronological_single c1 c2 c3 c4 c5 resolve_boston
        int_timestamp_samples soon fields timestamp_samples unavailable_reverser_def)
qed

text \<open>
  C1. The claim asks for one transition event per boundary between places that differ in
  the watched attribute, the boundary between the first and the second sample included.
  The loop starts at index 1 and takes its first current place from the second sample, so
  the first sample is never compared with the second. In the run below the first sample
  resolves to the US and the second and third to France, and the only event is the
  initial one.
\<close>

theorem first_boundary_is_skipped:
  "resolve_location atlantic_reverser (boston (PInt 100)) = Inr boston_place
   \<and> resolve_location atlantic_reverser (paris (PInt 200)) = Inr paris_place
   \<and> country boston_place = ''US'' \<and> country paris_place = ''FR''
   \<and> iter_unique_country_path atlantic_reverser
        [boston (PInt 100), paris (PInt 200), paris (PInt 300)]
        default_filter_func default_key_func
      = ([(None, None, boston_place, 100)], None)"
  by (simp add: iter_unique_country_path_def boston_paris_paris_run resolve_boston
      resolve_paris)
    (simp add: boston_place_def paris_place_def)

text \<open>
  C6. The default key function returns the stored \<^verbatim>\<open>timestampMs\<close> unconverted, so
  string timestamps are sorted as text. In the run below three samples are given in
  chronological order, at 30, 200 and 1000; they are processed in the order 1000, 200, 30,
  and the timestamps of the two events are 1000 and then 30.
\<close>

theorem string_timestamps_sorted_as_text:
  "iter_chronologically [paris (PStr ''30''), boston (PStr ''200''), boston (PStr ''1000'')]
     default_filter_func default_key_func
     = Inr [boston (PStr ''1000''), boston (PStr ''200''), paris (PStr ''30'')]
   \<and> iter_unique_country_path atlantic_reverser
        [paris (PStr ''30''), boston (PStr ''200''), boston (PStr ''1000'')]
        default_filter_func default_key_func
      = ([(None, None, boston_place, 1000), (Some boston_place, Some 1000, paris_place, 30)],
         None)
   \<and> map next_timestamp (fst (iter_unique_country_path atlantic_reverser
        [paris (PStr ''30''), boston (PStr ''200''), boston (PStr ''1000'')]
        default_filter_func default_key_func)) = [1000, 30]"
proof -
  have chrono: "iter_chronologically
      [paris (PStr ''30''), boston (PStr ''200''), boston (PStr ''1000'')]
      default_filter_func default_key_func
      = Inr [boston (PStr ''1000''), boston (PStr ''200''), paris (PStr ''30'')]"
    by (simp add: iter_chronologically_def sorted_py_def default_filter_func_def
      default_key_func_def timestamp_samples)
  have ts: "int_timestamp (boston (PStr ''1000'')) = Inr 1000"
    "int_timestamp (paris (PStr ''30'')) = Inr 30"
    by (simp_all add: int_timestamp_def timestamp_samples int_of_string_def strip_def
        is_space_def parse_nat_def digit_val_def)
  have idx: "[1 ..< length [boston (PStr ''200''), paris (PStr ''30'')]] = [1]"
    by (simp add: upt_rec)
  have differ: "getattr paris_place Country \<noteq> getattr boston_place Country"
    by (simp add: boston_place_def paris_place_def)
  have loop: "segment_loop atlantic_reverser Country
                [boston (PStr ''1000''), boston (PStr ''200''), paris (PStr ''30'')] None
                (boston (PStr ''1000'')) [1]
              = ([(Some boston_place, Some 1000, paris_place, 30)], None)"
    using differ by (simp add: attempt_def yield_def getitem_def resolve_paris resolve_boston ts)
  have run: "iter_unique_country_path atlantic_reverser
        [paris (PStr ''30''), boston (PStr ''200''), boston (PStr ''1000'')]
        default_filter_func default_key_func
      = ([(None, None, boston_place, 1000), (Some boston_place, Some 1000, paris_place, 30)],
         None)"
    unfolding iter_unique_country_path_def
    using first_event [OF chrono resolve_boston ts(1), of Country]
    by (simp only: idx loop yield_def fst_conv snd_conv)
  show ?thesis
    by (simp add: chrono run next_timestamp_def)
qed

section \<open>Properties of the gazetteer\<close>

lemma set_countries_frame:
  "set_countries cs locs idxs = (e, locs') \<Longrightarrow>
     length locs' = length locs \<and>
     (\<forall>i < length locs.
        (\<forall>k. k \<noteq> ''country'' \<longrightarrow> (locs' ! i) k = (locs ! i) k) \<and>
        ((locs' ! i) ''country'' = (locs ! i) ''country'' \<or>
         (\<exists>code. (locs ! i) ''country_code'' = Some code \<and>
            (locs' ! i) ''country'' = Some (case cs code of None \<Rightarrow> [] | Some name \<Rightarrow> name))))"
proof (induction idxs arbitrary: locs)
  case Nil
  then show ?case by simp
next
  case (Cons index rest)
  show ?case
  proof (cases "(locs ! index) ''country_code''")
    case None
    with Cons.prems show ?thesis by simp
  next
    case (Some code)
    let ?l = "locs[index := (locs ! index)(''country'' \<mapsto> (case cs code of None \<Rightarrow> [] | Some name \<Rightarrow> name))]"
    from Cons.prems Some have run: "set_countries cs ?l rest = (e, locs')" by simp
    note ih = Cons.IH [OF run]
    show ?thesis
    proof (intro conjI allI impI)
      show "length locs' = length locs" using ih by simp
    next
      fix i k assume "i < length locs" and "k \<noteq> ''country''"
      then show "(locs' ! i) k = (locs ! i) k"
        using ih by (cases "i = index") auto
    next
      fix i assume i: "i < length locs"
      show "(locs' ! i) ''country'' = (locs ! i) ''country'' \<or>
         (\<exists>code. (locs ! i) ''country_code'' = Some code \<and>
            (locs' ! i) ''country'' = Some (case cs code of None \<Rightarrow> [] | Some name \<Rightarrow> name))"
      proof (cases "i = index")
        case True
        then show ?thesis using ih i Some by auto
      next
        case False
        then show ?thesis using ih i by auto
      qed
    qed
  qed
qed




lemma set_countries_error:
  "set_countries cs locs idxs = (Some e, locs') \<Longrightarrow> e = KeyError"
  by (induction idxs arbitrary: locs) (auto split: option.splits)


lemma set_countries_writes:
  "set_countries cs locs idxs = (None, locs') \<Longrightarrow> \<forall>i \<in> set idxs. i < length locs \<Longrightarrow>
     \<forall>i \<in> set idxs. \<exists>code. (locs ! i) ''country_code'' = Some code \<and>
        (locs' ! i) ''country'' = Some (case cs code of None \<Rightarrow> [] | Some name \<Rightarrow> name)"
proof (induction idxs arbitrary: locs)
  case Nil
  then show ?case by simp
next
  case (Cons index rest)
  from Cons.prems(2) have index: "index < length locs" by simp
  from Cons.prems(1) obtain code where code: "(locs ! index) ''country_code'' = Some code"
    by (cases "(locs ! index) ''country_code''") auto
  let ?name = "\<lambda>c. case cs c of None \<Rightarrow> [] | Some name \<Rightarrow> name"
  let ?l = "locs[index := (locs ! index)(''country'' \<mapsto> ?name code)]"
  from Cons.prems(1) code have run: "set_countries cs ?l rest = (None, locs')" by simp
  have rest: "\<forall>i \<in> set rest. i < length ?l" using Cons.prems(2) by simp
  note tail = set_countries_frame [OF run]
  have codes: "(?l ! i) ''country_code'' = (locs ! i) ''country_code''" if "i < length locs" for i
    using that by (cases "i = index") simp_all
  show ?case
  proof
    fix i assume i: "i \<in> set (index # rest)"
    then have range: "i < length locs" using Cons.prems(2) by blast
    show "\<exists>code. (locs ! i) ''country_code'' = Some code \<and>
        (locs' ! i) ''country'' = Some (?name code)"
    proof (cases "i \<in> set rest")
      case True
      with Cons.IH [OF run rest] obtain c where
        "(?l ! i) ''country_code'' = Some c" and "(locs' ! i) ''country'' = Some (?name c)"
        by blast
      with codes [OF range] show ?thesis by metis
    next
      case False
      with i have eq: "i = index" by simp
      have "(?l ! index) ''country'' = Some (?name code)"
        "(?l ! index) ''country_code'' = Some code"
        using index code by simp_all
      with tail index have "(locs' ! index) ''country'' = Some (?name code)"
        by auto
      with code eq show ?thesis by simp
    qed
  qed
qed

lemma query_found:
  assumes "tree gd q = ManyIndices idxs" and "fst (query gd q) = Inr rs"
  shows "(\<forall>i \<in> set idxs. i < length (locations gd))
       \<and> set_countries (countries gd) (locations gd) idxs
           = (None, locations (snd (query gd q)))
       \<and> rs = map (\<lambda>i. locations (snd (query gd q)) ! i) idxs"
proof (cases "list_all (\<lambda>index. index < length (locations gd)) idxs")
  case False
  with assms show ?thesis by (simp add: query_def)
next
  case True
  obtain e locs' where run: "set_countries (countries gd) (locations gd) idxs = (e, locs')"
    by (cases "set_countries (countries gd) (locations gd) idxs") auto
  with assms True have "e = None"
    by (cases e) (simp_all add: query_def)
  with assms True run show ?thesis
    by (auto simp add: query_def list_all_iff)
qed

lemma query_value_error:
  "fst (query gd q) = Inl ValueError \<longleftrightarrow> tree gd q = SearchFailed"
proof (cases "tree gd q")
  case SearchFailed
  then show ?thesis by (simp add: query_def)
next
  case (OneIndex i)
  then show ?thesis by (simp add: query_def)
next
  case (ManyIndices idxs)
  show ?thesis
  proof (cases "list_all (\<lambda>index. index < length (locations gd)) idxs")
    case False
    with ManyIndices show ?thesis by (simp add: query_def)
  next
    case True
    obtain e locs' where run: "set_countries (countries gd) (locations gd) idxs = (e, locs')"
      by (cases "set_countries (countries gd) (locations gd) idxs") auto
    show ?thesis
    proof (cases e)
      case None
      with ManyIndices True run show ?thesis by (simp add: query_def)
    next
      case (Some err)
      with run have "err = KeyError" by (simp add: set_countries_error)
      with ManyIndices True run Some show ?thesis by (simp add: query_def)
    qed
  qed
qed

lemma query_found_has_country:
  assumes "tree gd q = ManyIndices idxs" and "fst (query gd q) = Inr rs" and "r \<in> set rs"
  shows "r ''country'' \<noteq> None"
proof -
  note found = query_found [OF assms(1,2)]
  from found have range: "\<forall>i \<in> set idxs. i < length (locations gd)"
    and run: "set_countries (countries gd) (locations gd) idxs
                = (None, locations (snd (query gd q)))"
    and rs: "rs = map (\<lambda>i. locations (snd (query gd q)) ! i) idxs"
    by simp_all
  from assms(3) rs obtain i where i: "i \<in> set idxs" and r: "r = locations (snd (query gd q)) ! i"
    by auto
  from set_countries_writes [OF run range] i r show ?thesis
    by auto
qed

text \<open>
  C4, amended. \<^verbatim>\<open>query\<close> raises \<^verbatim>\<open>ValueError\<close> exactly when the search of the index
  raises, for whatever reason (a malformed query point set, an empty one, a failure inside
  the search); it then returns no result and leaves the gazetteer as it was. It returns
  the single empty record, which has neither a city nor a country field, exactly when the
  search returns a plain integer instead of a sequence of indices, and leaves the gazetteer
  as it was then too. Every record it returns for a sequence of indices carries a
  \<^verbatim>\<open>country\<close> field, so a returned record without one can only come from a plain
  integer. When the search returns an empty sequence of indices, the result is the empty
  list.
\<close>

theorem query_outcomes:
  "(fst (query gd q) = Inl ValueError \<longleftrightarrow> tree gd q = SearchFailed)
   \<and> (tree gd q = SearchFailed \<longrightarrow> query gd q = (Inl ValueError, gd))
   \<and> (fst (query gd q) = Inr [Map.empty] \<longleftrightarrow> (\<exists>i. tree gd q = OneIndex i))
   \<and> (\<forall>i. tree gd q = OneIndex i \<longrightarrow> query gd q = (Inr [Map.empty], gd))
   \<and> (\<forall>rs r. fst (query gd q) = Inr rs \<and> r \<in> set rs \<and> r ''country'' = None \<longrightarrow>
         (\<exists>i. tree gd q = OneIndex i))
   \<and> (tree gd q = ManyIndices [] \<longrightarrow> query gd q = (Inr [], gd))"
proof (intro conjI allI impI)
  show "fst (query gd q) = Inl ValueError \<longleftrightarrow> tree gd q = SearchFailed"
    by (rule query_value_error)
next
  assume "tree gd q = SearchFailed"
  then show "query gd q = (Inl ValueError, gd)" by (simp add: query_def)
next
  fix i assume "tree gd q = OneIndex i"
  then show "query gd q = (Inr [Map.empty], gd)" by (simp add: query_def)
next
  assume "tree gd q = ManyIndices []"
  then show "query gd q = (Inr [], gd)" by (simp add: query_def)
next
  fix rs r
  assume h: "fst (query gd q) = Inr rs \<and> r \<in> set rs \<and> r ''country'' = None"
  show "\<exists>i. tree gd q = OneIndex i"
  proof (cases "tree gd q")
    case SearchFailed
    with h show ?thesis by (simp add: query_def)
  next
    case (OneIndex i)
    then show ?thesis by simp
  next
    case (ManyIndices idxs)
    with h query_found_has_country [of gd q idxs rs r] show ?thesis by simp
  qed
next
  show "fst (query gd q) = Inr [Map.empty] \<longleftrightarrow> (\<exists>i. tree gd q = OneIndex i)"
  proof
    assume e: "fst (query gd q) = Inr [Map.empty]"
    show "\<exists>i. tree gd q = OneIndex i"
    proof (cases "tree gd q")
      case SearchFailed
      with e show ?thesis by (simp add: query_def)
    next
      case (OneIndex i)
      then show ?thesis by simp
    next
      case (ManyIndices idxs)
      with e query_found_has_country [of gd q idxs "[Map.empty]" Map.empty] show ?thesis
        by simp
    qed
  next
    assume "\<exists>i. tree gd q = OneIndex i"
    then show "fst (query gd q) = Inr [Map.empty]" by (auto simp add: query_def)
  qed
qed

lemma origin_data_built: "origin_data = Inr origin_gazetteer"
  by (simp add: origin_data_def origin_gazetteer_def GeocodeData_init_def scan_tree_def
      extract_rows_def load_countries_def)

lemma nearest_single: "nearest [p] q = 0"
  by (simp add: nearest_def)

text \<open>
  Counterexample to C4 as stated: the empty query point set on the gazetteer with the
  entry Origin, and the query of the empty point set and of a single point on a gazetteer
  whose index search raises, all end in \<^verbatim>\<open>ValueError\<close>; no record with empty city
  and country is returned.
\<close>

theorem search_failure_propagates:
  "fst (search broken_data [] None) = Inl ValueError
   \<and> fst (reverse_coordinates broken_data (0, 0) None) = Inl ValueError
   \<and> fst (search origin_data [] None) = Inl ValueError"
  by (simp add: search_def reverse_coordinates_def broken_data_def GeocodeData_init_def
      failing_tree_def extract_rows_def Singleton_call_def query_def origin_data_built
      origin_gazetteer_def scan_search_def)

text \<open>
  Witness for C4, amended: on the gazetteer with the entry Origin the search raises for
  the empty query point set; with an index that answers with a plain integer the query of
  a point returns the single empty record; and the query of the point (0.001, 0.001)
  returns a record with the country Originland, not an empty one.
\<close>

theorem query_outcomes_witness:
  "tree origin_gazetteer [] = SearchFailed
   \<and> query origin_gazetteer [] = (Inl ValueError, origin_gazetteer)
   \<and> tree plain_int_gazetteer [(1 / 1000, 1 / 1000)] = OneIndex 0
   \<and> query plain_int_gazetteer [(1 / 1000, 1 / 1000)] = (Inr [Map.empty], plain_int_gazetteer)
   \<and> tree origin_gazetteer [(1 / 1000, 1 / 1000)] = ManyIndices [0]
   \<and> fst (query origin_gazetteer [(1 / 1000, 1 / 1000)])
       = Inr [[''country_code'' \<mapsto> ''XX'', ''city'' \<mapsto> ''Origin'', ''country'' \<mapsto> ''Originland'']]
   \<and> fst (query origin_gazetteer [(1 / 1000, 1 / 1000)]) \<noteq> Inl ValueError
   \<and> fst (query origin_gazetteer [(1 / 1000, 1 / 1000)]) \<noteq> Inr [Map.empty]"
proof -
  have t1: "tree origin_gazetteer [] = SearchFailed"
    by (simp add: origin_gazetteer_def scan_search_def)
  have t2: "tree plain_int_gazetteer [(1 / 1000, 1 / 1000)] = OneIndex 0"
    by (simp add: plain_int_gazetteer_def plain_int_search_def)
  have t3: "tree origin_gazetteer [(1 / 1000, 1 / 1000)] = ManyIndices [0]"
    by (simp add: origin_gazetteer_def scan_search_def nearest_single)
  have r3: "fst (query origin_gazetteer [(1 / 1000, 1 / 1000)])
       = Inr [[''country_code'' \<mapsto> ''XX'', ''city'' \<mapsto> ''Origin'', ''country'' \<mapsto> ''Originland'']]"
    by (simp add: query_def origin_gazetteer_def scan_search_def nearest_single)
  show ?thesis
    using query_outcomes [of origin_gazetteer "[]"]
      query_outcomes [of plain_int_gazetteer "[(1 / 1000, 1 / 1000)]"]
      query_outcomes [of origin_gazetteer "[(1 / 1000, 1 / 1000)]"]
      t1 t2 t3 r3
    by auto
qed




lemma sq_dist_zero: "sq_dist p q = 0 \<longleftrightarrow> p = q"
  by (cases p; cases q) (simp add: sq_dist_def sum_power2_eq_zero_iff)

lemma sq_dist_nonneg: "0 \<le> sq_dist p q"
  by (simp add: sq_dist_def)

lemma nearest_is_nearest:
  assumes "k < length coords"
  shows "nearest coords q < length coords
       \<and> sq_dist (coords ! nearest coords q) q \<le> sq_dist (coords ! k) q"
proof -
  let ?f = "\<lambda>i. sq_dist (coords ! i) q"
  let ?is = "[0 ..< length coords]"
  from assms have ne: "?is \<noteq> []" and nonempty: "coords \<noteq> []" by auto
  have m: "nearest coords q = arg_min_list ?f ?is"
    using nonempty by (simp add: nearest_def)
  have "arg_min_list ?f ?is \<in> set ?is"
    using ne by (rule arg_min_list_in)
  then have in_range: "nearest coords q < length coords"
    using m by simp
  have "?f (arg_min_list ?f ?is) = Min (?f ` set ?is)"
    using ne by (rule f_arg_min_list_f)
  moreover have "Min (?f ` set ?is) \<le> ?f k"
    using assms by (intro Min_le) auto
  ultimately show ?thesis
    using in_range m by simp
qed

lemma nearest_identical:
  assumes j: "j < length coords" and at: "coords ! j = q"
    and unique: "\<forall>k < length coords. k \<noteq> j \<longrightarrow> coords ! k \<noteq> q"
  shows "nearest coords q = j"
proof -
  from nearest_is_nearest [OF j, of q]
  have range: "nearest coords q < length coords"
    and le: "sq_dist (coords ! nearest coords q) q \<le> sq_dist (coords ! j) q"
    by simp_all
  have "sq_dist (coords ! j) q = 0"
    using at by (simp add: sq_dist_zero)
  with le sq_dist_nonneg [of "coords ! nearest coords q" q]
  have "sq_dist (coords ! nearest coords q) q = 0"
    by simp
  then have "coords ! nearest coords q = q"
    by (simp add: sq_dist_zero)
  with unique range show ?thesis
    by blast
qed

lemma query_one_index:
  assumes "tree gd qs = ManyIndices [j]" and "j < length (locations gd)"
    and "(locations gd ! j) ''country_code'' = Some code"
  shows "fst (query gd qs) =
           Inr [(locations gd ! j)(''country'' \<mapsto>
                  (case countries gd code of None \<Rightarrow> [] | Some name \<Rightarrow> name))]"
  using assms by (simp add: query_def)

text \<open>
  C9, amended. For every reference dataset, querying the coordinates of a reference entry
  that no other entry shares returns exactly that entry: its country code, its city, and
  the country name that the country table gives for its code (the empty string when the
  table has no such code). In the gazetteer with the single entry (0.0, 0.0, XX, Origin)
  and the country table XX: Originland, the query of (0.001, 0.001) returns the city
  Origin and the country Originland.
\<close>

theorem identical_coordinate_lookup:
  assumes j: "j < length rows" and row: "rows ! j = (la, lo, cc, ci)"
    and unique: "\<forall>k < length rows. k \<noteq> j \<longrightarrow>
                   (fst (rows ! k), fst (snd (rows ! k))) \<noteq> (la, lo)"
  shows "fst (reverse_coordinates (GeocodeData_init scan_tree rows country_rows) (la, lo) None)
           = Inr [''country_code'' \<mapsto> cc, ''city'' \<mapsto> ci,
                  ''country'' \<mapsto> (case load_countries country_rows Map.empty cc of
                                      None \<Rightarrow> [] | Some name \<Rightarrow> name)]
       \<and> fst (reverse_coordinates origin_data (1 / 1000, 1 / 1000) None)
           = Inr [''country_code'' \<mapsto> ''XX'', ''city'' \<mapsto> ''Origin'',
                  ''country'' \<mapsto> ''Originland'']"
proof
  let ?coords = "map (\<lambda>(la, lo, cc, ci). (la, lo)) rows"
  let ?locs = "map (\<lambda>(la, lo, cc, ci). [''country_code'' \<mapsto> cc, ''city'' \<mapsto> ci]) rows"
  let ?gd = "\<lparr>tree = scan_search ?coords, locations = ?locs,
              countries = load_countries country_rows Map.empty\<rparr>"
  from j have "rows \<noteq> []" by auto
  then have built: "GeocodeData_init scan_tree rows country_rows = Inr ?gd"
    by (simp add: GeocodeData_init_def scan_tree_def extract_rows_def)
  have at: "?coords ! j = (la, lo)"
    using j row by simp
  have "\<forall>k < length ?coords. k \<noteq> j \<longrightarrow> ?coords ! k \<noteq> (la, lo)"
    using unique by (auto simp add: case_prod_beta)
  then have "nearest ?coords (la, lo) = j"
    using nearest_identical [of j ?coords "(la, lo)"] j at by simp
  then have found: "tree ?gd [(la, lo)] = ManyIndices [j]"
    by (simp add: scan_search_def)
  have stored: "locations ?gd ! j = [''country_code'' \<mapsto> cc, ''city'' \<mapsto> ci]"
    using j row by simp
  have "fst (query ?gd [(la, lo)]) =
          Inr [(locations ?gd ! j)(''country'' \<mapsto>
                 (case countries ?gd cc of None \<Rightarrow> [] | Some name \<Rightarrow> name))]"
    using found j stored by (intro query_one_index) simp_all
  then have "fst (query ?gd [(la, lo)]) =
          Inr [[''country_code'' \<mapsto> cc, ''city'' \<mapsto> ci,
                ''country'' \<mapsto> (case load_countries country_rows Map.empty cc of
                                    None \<Rightarrow> [] | Some name \<Rightarrow> name)]]"
    using stored by simp
  then show "fst (reverse_coordinates (GeocodeData_init scan_tree rows country_rows) (la, lo) None)
           = Inr [''country_code'' \<mapsto> cc, ''city'' \<mapsto> ci,
                  ''country'' \<mapsto> (case load_countries country_rows Map.empty cc of
                                      None \<Rightarrow> [] | Some name \<Rightarrow> name)]"
    unfolding built
    by (cases "query ?gd [(la, lo)]")
      (auto simp add: reverse_coordinates_def Singleton_call_def getitem_def
        simp del: geocode_data.simps split: sum.splits)
next
  show "fst (reverse_coordinates origin_data (1 / 1000, 1 / 1000) None)
           = Inr [''country_code'' \<mapsto> ''XX'', ''city'' \<mapsto> ''Origin'',
                  ''country'' \<mapsto> ''Originland'']"
    by (simp add: origin_data_built origin_gazetteer_def scan_search_def
        reverse_coordinates_def Singleton_call_def query_def nearest_single getitem_def)
qed

text \<open>
  Counterexample to C9 as stated: two reference entries have the same coordinates. The
  query of these coordinates returns one record, here that of Origin, so the entry Shadow,
  whose coordinates are identical to the query, is not returned. (An index that breaks
  the tie the other way fails to return Origin instead.)
\<close>

theorem duplicate_coordinates_hide_an_entry:
  "fst (reverse_coordinates shadow_data (0, 0) None)
     = Inr [''country_code'' \<mapsto> ''XX'', ''city'' \<mapsto> ''Origin'', ''country'' \<mapsto> ''Originland'']
   \<and> fst (reverse_coordinates shadow_data (0, 0) None)
     \<noteq> Inr [''country_code'' \<mapsto> ''YY'', ''city'' \<mapsto> ''Shadow'', ''country'' \<mapsto> ''Shadowland'']"
proof -
  have n: "nearest [(0, 0), (0, 0)] (0, 0) = 0"
    by (simp add: nearest_def upt_rec)
  have r: "fst (reverse_coordinates shadow_data (0, 0) None)
     = Inr [''country_code'' \<mapsto> ''XX'', ''city'' \<mapsto> ''Origin'', ''country'' \<mapsto> ''Originland'']"
    by (simp add: shadow_data_def GeocodeData_init_def scan_tree_def scan_search_def extract_rows_def
        load_countries_def reverse_coordinates_def Singleton_call_def query_def n getitem_def)
  have "[''country_code'' \<mapsto> ''XX'', ''city'' \<mapsto> ''Origin'', ''country'' \<mapsto> ''Originland''] ''city''
      \<noteq> [''country_code'' \<mapsto> ''YY'', ''city'' \<mapsto> ''Shadow'', ''country'' \<mapsto> ''Shadowland''] ''city''"
    by simp
  then have "[''country_code'' \<mapsto> ''XX'', ''city'' \<mapsto> ''Origin'', ''country'' \<mapsto> ''Originland'']
      \<noteq> [''country_code'' \<mapsto> ''YY'', ''city'' \<mapsto> ''Shadow'', ''country'' \<mapsto> ''Shadowland'']"
    by metis
  with r show ?thesis by simp
qed

text \<open>
  Witness for C9, amended: a dataset of two entries at different coordinates, queried at
  the coordinates of the second one.
\<close>

theorem identical_coordinate_lookup_witness:
  "(1 :: nat) < length [(0 :: real, 0 :: real, ''XX'', ''Origin''), (3, 4, ''YY'', ''Faraway'')]
   \<and> [(0 :: real, 0 :: real, ''XX'', ''Origin''), (3, 4, ''YY'', ''Faraway'')] ! 1
       = (3, 4, ''YY'', ''Faraway'')
   \<and> fst (reverse_coordinates
        (GeocodeData_init scan_tree
           [(0, 0, ''XX'', ''Origin''), (3, 4, ''YY'', ''Faraway'')]
           [(''XX'', ''Originland''), (''YY'', ''Farland'')]) (3, 4) None)
      = Inr [''country_code'' \<mapsto> ''YY'', ''city'' \<mapsto> ''Faraway'', ''country'' \<mapsto> ''Farland'']"
proof -
  have j: "(1 :: nat) < length [(0 :: real, 0 :: real, ''XX'', ''Origin''), (3, 4, ''YY'', ''Faraway'')]"
    by simp
  have row: "[(0 :: real, 0 :: real, ''XX'', ''Origin''), (3, 4, ''YY'', ''Faraway'')] ! 1
       = (3, 4, ''YY'', ''Faraway'')"
    by simp
  have unique: "\<forall>k < length [(0 :: real, 0 :: real, ''XX'', ''Origin''), (3, 4, ''YY'', ''Faraway'')].
      k \<noteq> 1 \<longrightarrow>
      (fst ([(0 :: real, 0 :: real, ''XX'', ''Origin''), (3, 4, ''YY'', ''Faraway'')] ! k),
       fst (snd ([(0 :: real, 0 :: real, ''XX'', ''Origin''), (3, 4, ''YY'', ''Faraway'')] ! k)))
      \<noteq> (3, 4)"
    by (simp add: less_Suc_eq)
  show ?thesis
    using identical_coordinate_lookup [OF j row unique, of "[(''XX'', ''Originland''), (''YY'', ''Farland'')]"]
    by (simp add: load_countries_def)
qed

end
